theory Spec2Isabelle
  imports Main
begin

section \<open>The host the plugin runs on\<close>

text \<open>
  The plugin of \<^verbatim>\<open>main.go\<close> does its work through the operating system: it starts
  helper processes, reads the process environment, synthesises key events and writes log
  lines. The model makes each of these calls an event of a trace, in program order, and
  takes what the operating system answers from a record \<open>host\<close>. Every function of the
  source that has an effect returns its Go result together with the events it issued.

  Go strings are byte strings, as HOL's \<open>string\<close> is.
\<close>

text \<open>
  A Go \<^verbatim>\<open>error\<close> value. \<open>ExecError\<close> is an error made by the standard library
  (\<^verbatim>\<open>os/exec\<close>), \<open>Errorf\<close> one made by \<^verbatim>\<open>fmt.Errorf\<close>; both carry their message.
  A Go result of type \<^verbatim>\<open>error\<close> is an \<open>error option\<close>, \<open>None\<close> for \<^verbatim>\<open>nil\<close>.
\<close>

datatype error = ExecError string | Errorf string

fun Error :: "error \<Rightarrow> string" where
  "Error (ExecError m) = m"
| "Error (Errorf m) = m"

text \<open>A call either returns a value or panics (the panic carries the runtime's message).\<close>

datatype 'a outcome = Return 'a | Panic string

definition nil_dereference :: string where
  "nil_dereference = ''runtime error: invalid memory address or nil pointer dereference''"

datatype LogLevel = LevelDebug | LevelInfo | LevelWarn | LevelError

text \<open>The value \<^verbatim>\<open>iota\<close> gives each level.\<close>

fun level_value :: "LogLevel \<Rightarrow> int" where
  "level_value LevelDebug = 0"
| "level_value LevelInfo = 1"
| "level_value LevelWarn = 2"
| "level_value LevelError = 3"

text \<open>
  \<^verbatim>\<open>io.Pipe()\<close> as the source uses it: the read half becomes the helper's standard
  input, and a goroutine holding the write half writes one payload and closes it.
  \<open>PipeReader payload\<close> is the read half of a pipe whose writer is given \<open>payload\<close>.
\<close>

datatype reader = PipeReader string

text \<open>
  \<^verbatim>\<open>exec.Cmd\<close>, with the fields the source sets. \<open>Stdin = None\<close> is the \<^verbatim>\<open>nil\<close>
  reader: the process then reads from the null device.
\<close>

record Cmd =
  Path :: string
  Args :: "string list"
  Stdin :: "reader option"

definition Command :: "string \<Rightarrow> string list \<Rightarrow> Cmd" where
  "Command name arg = \<lparr>Path = name, Args = name # arg, Stdin = None\<rparr>"

text \<open>
  What the goroutine's \<^verbatim>\<open>pipeWriter.Write\<close> comes to: \<open>Some (n, err)\<close> when the
  call returns \<^verbatim>\<open>(n, err)\<close>, \<open>None\<close> when it never returns (a pipe write blocks
  until a reader has taken all the bytes).
\<close>

type_synonym write_result = "(nat \<times> error option) option"

datatype event =
    Ev_Output string "string list"
  | Ev_LookPath string
  | Ev_Pipe
  | Ev_Go_Write string write_result
  | Ev_Run Cmd
  | Ev_KeyTap string "string list"
  | Ev_Sleep int
  | Ev_Log string string

text \<open>
  \<open>Ev_Output name arg\<close>: \<^verbatim>\<open>exec.Command(name, arg...).Output()\<close>;
  \<open>Ev_LookPath file\<close>: \<^verbatim>\<open>exec.LookPath(file)\<close>;
  \<open>Ev_Pipe\<close>: \<^verbatim>\<open>io.Pipe()\<close>;
  \<open>Ev_Go_Write payload r\<close>: the goroutine that writes \<open>payload\<close> into the pipe and
  closes it, with what its write comes to;
  \<open>Ev_Run cmd\<close>: \<^verbatim>\<open>cmd.Run()\<close>, which returns when the process has exited;
  \<open>Ev_KeyTap key mods\<close>: \<^verbatim>\<open>robotgo.KeyTap(key, mods...)\<close>;
  \<open>Ev_Sleep d\<close>: \<^verbatim>\<open>time.Sleep(d)\<close>, a duration in nanoseconds;
  \<open>Ev_Log level message\<close>: a line of \<^verbatim>\<open>writeLog\<close> (the time stamp left out).
\<close>

record host =
  GOOS :: string
  environ :: "string \<Rightarrow> string option"
  currentLevel :: LogLevel
  Output :: "string \<Rightarrow> string list \<Rightarrow> error + string"
  LookPath :: "string \<Rightarrow> error + string"
  Run :: "Cmd \<Rightarrow> error option"
  pipe_Write :: "string \<Rightarrow> write_result"

text \<open>
  \<open>GOOS\<close> is \<^verbatim>\<open>runtime.GOOS\<close>, \<open>environ\<close> the process environment, \<open>currentLevel\<close>
  the logger's level. \<open>Output h name arg\<close> is what \<^verbatim>\<open>exec.Command(name, arg...).Output()\<close>
  returns (the error, or the bytes the process wrote), \<open>LookPath h file\<close> what
  \<^verbatim>\<open>exec.LookPath(file)\<close> returns, \<open>Run h cmd\<close> what \<^verbatim>\<open>cmd.Run()\<close> returns, and
  \<open>pipe_Write h payload\<close> what the write of \<open>payload\<close> into the pipe comes to.
\<close>

text \<open>\<^verbatim>\<open>os.Getenv\<close>: the value of the variable, empty when it is not set.\<close>

definition Getenv :: "host \<Rightarrow> string \<Rightarrow> string" where
  "Getenv h key = (case environ h key of None \<Rightarrow> [] | Some v \<Rightarrow> v)"

definition Millisecond :: int where
  "Millisecond = 1000000"

section \<open>The string functions of the standard library that the source calls\<close>

text \<open>
  \<^verbatim>\<open>strings.ToLower\<close> on the ASCII range: the letters \<open>A\<close> to \<open>Z\<close> move to \<open>a\<close> to
  \<open>z\<close>, every other byte stays. (Outside ASCII the Go function maps whole code points;
  none of them has \<open>x\<close> or \<open>1\<close> as its lower case, so a comparison of the result with
  \<open>x11\<close> is not affected.)
\<close>

definition lower_byte :: "char \<Rightarrow> char" where
  "lower_byte c =
     (if (65::nat) \<le> of_char c \<and> of_char c \<le> (90::nat)
      then char_of (of_char c + (32::nat)) else c)"

definition ToLower :: "string \<Rightarrow> string" where
  "ToLower s = map lower_byte s"

text \<open>\<^verbatim>\<open>strings.HasPrefix\<close> and \<^verbatim>\<open>strings.HasSuffix\<close>, byte by byte.\<close>

definition HasPrefix :: "string \<Rightarrow> string \<Rightarrow> bool" where
  "HasPrefix s pre = (length pre \<le> length s \<and> take (length pre) s = pre)"

definition HasSuffix :: "string \<Rightarrow> string \<Rightarrow> bool" where
  "HasSuffix s suffix =
     (length suffix \<le> length s \<and> drop (length s - length suffix) s = suffix)"

text \<open>
  \<^verbatim>\<open>strings.TrimSpace\<close> removes from both ends the code points for which
  \<^verbatim>\<open>unicode.IsSpace\<close> holds: tab, line feed, vertical tab, form feed, carriage return,
  space, U+0085, U+00A0, U+1680, U+2000 to U+200A, U+2028, U+2029, U+202F, U+205F and
  U+3000. \<open>White_Space\<close> lists their UTF-8 encodings. Go decodes a white-space code point
  at the front of a string exactly when the string starts with its encoding, and at the
  end exactly when the string ends with it (each has one valid encoding, no encoding is
  the start or the end of another, and any other byte sequence decodes to a code point
  that is not white space, the replacement character for invalid bytes included). So the
  left trim removes leading encodings one after the other and the right trim trailing
  ones, which is what the ASCII fast path of the Go function and its fall-back to
  \<^verbatim>\<open>TrimFunc\<close> and \<^verbatim>\<open>TrimRightFunc\<close> compute.
\<close>

definition White_Space :: "string list" where
  "White_Space =
     [[CHR 0x09], [CHR 0x0A], [CHR 0x0B], [CHR 0x0C], [CHR 0x0D], [CHR 0x20],
      [CHR 0xC2, CHR 0x85], [CHR 0xC2, CHR 0xA0],
      [CHR 0xE1, CHR 0x9A, CHR 0x80],
      [CHR 0xE2, CHR 0x80, CHR 0x80], [CHR 0xE2, CHR 0x80, CHR 0x81],
      [CHR 0xE2, CHR 0x80, CHR 0x82], [CHR 0xE2, CHR 0x80, CHR 0x83],
      [CHR 0xE2, CHR 0x80, CHR 0x84], [CHR 0xE2, CHR 0x80, CHR 0x85],
      [CHR 0xE2, CHR 0x80, CHR 0x86], [CHR 0xE2, CHR 0x80, CHR 0x87],
      [CHR 0xE2, CHR 0x80, CHR 0x88], [CHR 0xE2, CHR 0x80, CHR 0x89],
      [CHR 0xE2, CHR 0x80, CHR 0x8A],
      [CHR 0xE2, CHR 0x80, CHR 0xA8], [CHR 0xE2, CHR 0x80, CHR 0xA9],
      [CHR 0xE2, CHR 0x80, CHR 0xAF],
      [CHR 0xE2, CHR 0x81, CHR 0x9F],
      [CHR 0xE3, CHR 0x80, CHR 0x80]]"

text \<open>
  The width in bytes of the white-space code point at the front, and at the end, of a
  string; 0 when there is none.
\<close>

definition leading_space :: "string \<Rightarrow> nat" where
  "leading_space s =
     (case find (HasPrefix s) White_Space of None \<Rightarrow> 0 | Some e \<Rightarrow> length e)"

definition trailing_space :: "string \<Rightarrow> nat" where
  "trailing_space s =
     (case find (HasSuffix s) White_Space of None \<Rightarrow> 0 | Some e \<Rightarrow> length e)"

function TrimLeftSpace :: "string \<Rightarrow> string" where
  "TrimLeftSpace s =
     (if leading_space s = 0 then s else TrimLeftSpace (drop (leading_space s) s))"
  by pat_completeness auto
termination
proof (relation "measure length")
  show "wf (measure length)" by simp
next
  fix s :: string
  assume a: "leading_space s \<noteq> 0"
  have "leading_space s \<le> length s"
    by (auto simp: leading_space_def HasPrefix_def split: option.splits
        dest: find_Some_iff [THEN iffD1])
  with a show "(drop (leading_space s) s, s) \<in> measure length" by simp
qed

function TrimRightSpace :: "string \<Rightarrow> string" where
  "TrimRightSpace s =
     (if trailing_space s = 0 then s
      else TrimRightSpace (take (length s - trailing_space s) s))"
  by pat_completeness auto
termination
proof (relation "measure length")
  show "wf (measure length)" by simp
next
  fix s :: string
  assume a: "trailing_space s \<noteq> 0"
  have "trailing_space s \<le> length s"
    by (auto simp: trailing_space_def HasSuffix_def split: option.splits
        dest: find_Some_iff [THEN iffD1])
  with a show "(take (length s - trailing_space s) s, s) \<in> measure length" by simp
qed

definition TrimSpace :: "string \<Rightarrow> string" where
  "TrimSpace s = TrimRightSpace (TrimLeftSpace s)"

text \<open>\<^verbatim>\<open>strings.Contains\<close>, byte by byte.\<close>

fun Contains :: "string \<Rightarrow> string \<Rightarrow> bool" where
  "Contains [] substr = (substr = [])"
| "Contains (c # cs) substr = (HasPrefix (c # cs) substr \<or> Contains cs substr)"

text \<open>
  \<^verbatim>\<open>fmt.Sprintf\<close> for the formats of the source: the verbs \<open>%s\<close> and \<open>%v\<close>, each
  replaced by the next argument (an error argument is passed as its message).
\<close>

fun Sprintf :: "string \<Rightarrow> string list \<Rightarrow> string" where
  "Sprintf [] args = []"
| "Sprintf [c] args = [c]"
| "Sprintf (c # d # cs) args =
     (if c = CHR ''%'' \<and> (d = CHR ''s'' \<or> d = CHR ''v'')
      then (case args of
              [] \<Rightarrow> ''%!'' @ [d] @ ''(MISSING)'' @ Sprintf cs []
            | a # as \<Rightarrow> a @ Sprintf cs as)
      else c # Sprintf (d # cs) args)"

section \<open>Logger\<close>

text \<open>
  The methods of \<^verbatim>\<open>Logger\<close> that \<^verbatim>\<open>Execute\<close> calls. Each writes its line when the
  level allows it. The method \<^verbatim>\<open>Logger.Error\<close> is \<open>Error_log\<close> here (\<open>Error\<close> is the
  message of an error value).
\<close>

definition writeLog :: "string \<Rightarrow> string \<Rightarrow> event list" where
  "writeLog level message = [Ev_Log level message]"

definition Debug :: "host \<Rightarrow> string \<Rightarrow> event list" where
  "Debug h message =
     (if level_value (currentLevel h) \<le> level_value LevelDebug
      then writeLog ''DEBUG'' message else [])"

definition Debugf :: "host \<Rightarrow> string \<Rightarrow> string list \<Rightarrow> event list" where
  "Debugf h format args =
     (if level_value (currentLevel h) \<le> level_value LevelDebug
      then writeLog ''DEBUG'' (Sprintf format args) else [])"

definition Error_log :: "host \<Rightarrow> string \<Rightarrow> error option \<Rightarrow> event list" where
  "Error_log h message err =
     (if level_value (currentLevel h) \<le> level_value LevelError
      then writeLog ''ERROR''
             (case err of
                None \<Rightarrow> message
              | Some e \<Rightarrow> Sprintf ''%s: %v'' [message, Error e])
      else [])"

section \<open>Window\<close>

record Window =
  Title :: string

definition GetFocusedWindow :: "host \<Rightarrow> (error + Window) \<times> event list" where
  "GetFocusedWindow h =
     (case Output h ''xdotool'' [''getactivewindow''] of
        Inl err \<Rightarrow> (Inl err, [Ev_Output ''xdotool'' [''getactivewindow'']])
      | Inr windowID \<Rightarrow>
          (case Output h ''xdotool'' [''getwindowname'', TrimSpace windowID] of
             Inl err \<Rightarrow>
               (Inl err,
                [Ev_Output ''xdotool'' [''getactivewindow''],
                 Ev_Output ''xdotool'' [''getwindowname'', TrimSpace windowID]])
           | Inr windowName \<Rightarrow>
               (Inr \<lparr>Title = TrimSpace windowName\<rparr>,
                [Ev_Output ''xdotool'' [''getactivewindow''],
                 Ev_Output ''xdotool'' [''getwindowname'', TrimSpace windowID]])))"

section \<open>Clipboard\<close>

definition xclip_cmd :: "string \<Rightarrow> Cmd" where
  "xclip_cmd text =
     (Command ''xclip'' [''-selection'', ''clipboard''])\<lparr>Stdin := Some (PipeReader text)\<rparr>"

definition CopyToClipboard :: "host \<Rightarrow> string \<Rightarrow> error option outcome \<times> event list" where
  "CopyToClipboard h text =
     (if GOOS h = ''darwin'' then
        (Return (Run h (Command ''pbcopy'' [])), [Ev_Run (Command ''pbcopy'' [])])
      else if GOOS h = ''linux'' then
        (case LookPath h ''xclip'' of
           Inl err \<Rightarrow>
             (Return (Some (Errorf (Sprintf ''xclip is not installed'' []))),
              [Ev_LookPath ''xclip''])
         | Inr p \<Rightarrow>
             (Return (Run h (xclip_cmd text)),
              [Ev_LookPath ''xclip'', Ev_Pipe, Ev_Go_Write text (pipe_Write h text),
               Ev_Run (xclip_cmd text)]))
      else (Panic nil_dereference, []))"

definition isX11 :: "host \<Rightarrow> bool" where
  "isX11 h = (ToLower (Getenv h ''XDG_SESSION_TYPE'') = ''x11'')"

definition paste_cmd :: Cmd where
  "paste_cmd = Command ''xdotool'' [''key'', ''ctrl+v'']"

definition enter_cmd :: Cmd where
  "enter_cmd = Command ''xdotool'' [''key'', ''Return'']"

definition PasteWithReturn :: "host \<Rightarrow> string \<Rightarrow> error option outcome \<times> event list" where
  "PasteWithReturn h text =
     (case CopyToClipboard h text of
        (Panic p, t) \<Rightarrow> (Panic p, t)
      | (Return (Some err), t) \<Rightarrow> (Return (Some err), t)
      | (Return None, t) \<Rightarrow>
          (if isX11 h then
             (Return None, t @ [Ev_KeyTap ''v'' [''ctrl''], Ev_KeyTap ''enter'' []])
           else
             (case Run h paste_cmd of
                Some err \<Rightarrow>
                  (Return (Some (Errorf (Sprintf ''failed to paste: %v'' [Error err]))),
                   t @ [Ev_Run paste_cmd])
              | None \<Rightarrow>
                  (case Run h enter_cmd of
                     Some err \<Rightarrow>
                       (Return (Some (Errorf (Sprintf ''failed to press enter: %v'' [Error err]))),
                        t @ [Ev_Run paste_cmd, Ev_Sleep (50 * Millisecond), Ev_Run enter_cmd])
                   | None \<Rightarrow>
                       (Return None,
                        t @ [Ev_Run paste_cmd, Ev_Sleep (50 * Millisecond),
                             Ev_Run enter_cmd])))))"

section \<open>The action\<close>

definition Execute :: "host \<Rightarrow> string \<Rightarrow> error option outcome \<times> event list" where
  "Execute h transcription =
     (let t0 = Debugf h ''Checking if VSCode should execute action for transcription: %s''
                 [transcription]
      in case GetFocusedWindow h of
           (Inl err, t1) \<Rightarrow>
             (Return (Some err),
              t0 @ t1 @ Error_log h ''Error getting focused window'' (Some err))
         | (Inr focusedWindow, t1) \<Rightarrow>
             (let t2 = Debugf h ''Checking window title: %s'' [Title focusedWindow]
              in if \<not> Contains (Title focusedWindow) ''VSC'' then
                   (Return None,
                    t0 @ t1 @ t2 @ Debug h ''VSCode is not open, skipping action'')
                 else
                   (case PasteWithReturn h transcription of
                      (Panic p, t3) \<Rightarrow> (Panic p, t0 @ t1 @ t2 @ t3)
                    | (Return r, t3) \<Rightarrow> (Return None, t0 @ t1 @ t2 @ t3))))"

section \<open>Reading a trace\<close>

text \<open>
  The calls that touch the clipboard (the search for the helper, the pipe, the goroutine
  that feeds it, the run of \<^verbatim>\<open>pbcopy\<close> or \<^verbatim>\<open>xclip\<close>), the calls that synthesise
  a key (\<^verbatim>\<open>robotgo.KeyTap\<close>, a run of \<^verbatim>\<open>xdotool\<close>), and the delays.
\<close>

fun is_clipboard_call :: "event \<Rightarrow> bool" where
  "is_clipboard_call (Ev_LookPath file) = (file = ''xclip'')"
| "is_clipboard_call Ev_Pipe = True"
| "is_clipboard_call (Ev_Go_Write payload r) = True"
| "is_clipboard_call (Ev_Run cmd) = (Path cmd = ''pbcopy'' \<or> Path cmd = ''xclip'')"
| "is_clipboard_call ev = False"

fun is_key_synthesis :: "event \<Rightarrow> bool" where
  "is_key_synthesis (Ev_KeyTap key mods) = True"
| "is_key_synthesis (Ev_Run cmd) = (Path cmd = ''xdotool'')"
| "is_key_synthesis ev = False"


section \<open>Hosts to run the model on\<close>

text \<open>
  A Linux desktop with no session type set, every tool present and succeeding, and an
  editor window in focus; the other hosts differ from it in one answer each.
\<close>

definition editor_host :: host where
  "editor_host =
     \<lparr>GOOS = ''linux'',
      environ = (\<lambda>key. None),
      currentLevel = LevelInfo,
      Output = (\<lambda>name arg.
         if arg = [''getactivewindow''] then Inr ''62914565\<newline>''
         else if arg = [''getwindowname'', ''62914565'']
           then Inr ''main.go - VSCodium\<newline>''
         else Inl (ExecError ''exit status 1'')),
      LookPath = (\<lambda>file. Inr (''/usr/bin/'' @ file)),
      Run = (\<lambda>cmd. None),
      pipe_Write = (\<lambda>payload. Some (length payload, None))\<rparr>"

definition terminal_host :: host where
  "terminal_host =
     editor_host\<lparr>Output := (\<lambda>name arg.
        if arg = [''getactivewindow''] then Inr ''4194311\<newline>''
        else Inr ''Terminal\<newline>'')\<rparr>"

definition no_window_host :: host where
  "no_window_host = editor_host\<lparr>Output := (\<lambda>name arg. Inl (ExecError ''exit status 1''))\<rparr>"

definition no_title_host :: host where
  "no_title_host =
     editor_host\<lparr>Output := (\<lambda>name arg.
        if arg = [''getactivewindow''] then Inr ''62914565\<newline>''
        else Inl (ExecError ''exit status 1''))\<rparr>"

text \<open>The title reported ends in a no-break space (U+00A0) before the line feed.\<close>

definition nbsp_title :: string where
  "nbsp_title = ''main.go - VSCodium'' @ [CHR 0xC2, CHR 0xA0, CHR 0x0A]"

definition nbsp_title_host :: host where
  "nbsp_title_host =
     editor_host\<lparr>Output := (\<lambda>name arg.
        if arg = [''getactivewindow''] then Inr ''62914565\<newline>''
        else Inr nbsp_title)\<rparr>"

definition no_xclip_host :: host where
  "no_xclip_host =
     editor_host\<lparr>LookPath := (\<lambda>file. Inl (ExecError ''executable file not found in $PATH''))\<rparr>"

definition darwin_host :: host where
  "darwin_host = editor_host\<lparr>GOOS := ''darwin''\<rparr>"

definition windows_host :: host where
  "windows_host = editor_host\<lparr>GOOS := ''windows''\<rparr>"

definition x11_host :: host where
  "x11_host =
     editor_host\<lparr>environ := (\<lambda>key. if key = ''XDG_SESSION_TYPE'' then Some ''X11'' else None)\<rparr>"



section \<open>Facts about the string functions\<close>

lemma HasPrefix_iff: "HasPrefix s pre \<longleftrightarrow> (\<exists>post. s = pre @ post)"
proof
  assume "HasPrefix s pre"
  then have "s = pre @ drop (length pre) s"
    by (metis HasPrefix_def append_take_drop_id)
  then show "\<exists>post. s = pre @ post" ..
next
  assume "\<exists>post. s = pre @ post"
  then show "HasPrefix s pre" by (auto simp: HasPrefix_def)
qed

lemma Contains_iff: "Contains s substr \<longleftrightarrow> (\<exists>pre post. s = pre @ substr @ post)"
proof (induction s)
  case Nil
  show ?case by simp
next
  case (Cons c cs)
  show ?case
  proof
    assume "Contains (c # cs) substr"
    then consider "HasPrefix (c # cs) substr" | "Contains cs substr" by auto
    then show "\<exists>pre post. c # cs = pre @ substr @ post"
    proof cases
      case 1
      then obtain post where "c # cs = substr @ post" by (auto simp: HasPrefix_iff)
      then have "c # cs = [] @ substr @ post" by simp
      then show ?thesis by blast
    next
      case 2
      with Cons.IH obtain pre post where "cs = pre @ substr @ post" by auto
      then have "c # cs = (c # pre) @ substr @ post" by simp
      then show ?thesis by blast
    qed
  next
    assume "\<exists>pre post. c # cs = pre @ substr @ post"
    then obtain pre post where eq: "c # cs = pre @ substr @ post" by blast
    show "Contains (c # cs) substr"
    proof (cases pre)
      case Nil
      with eq have "HasPrefix (c # cs) substr" by (auto simp: HasPrefix_iff)
      then show ?thesis by simp
    next
      case (Cons p ps)
      with eq have "cs = ps @ substr @ post" by simp
      with Cons.IH have "Contains cs substr" by blast
      then show ?thesis by simp
    qed
  qed
qed

lemma of_char_lower_byte:
  "(of_char (lower_byte c) :: nat) =
     (if 65 \<le> (of_char c :: nat) \<and> (of_char c :: nat) \<le> 90 then of_char c + 32 else of_char c)"
  by (simp add: lower_byte_def)

lemma char_eq_nat: "c = d \<longleftrightarrow> (of_char c :: nat) = of_char d"
  by simp

lemma lower_byte_x: "lower_byte c = CHR ''x'' \<longleftrightarrow> c = CHR ''x'' \<or> c = CHR ''X''"
proof -
  have "lower_byte c = CHR ''x'' \<longleftrightarrow> (of_char (lower_byte c) :: nat) = 120"
    by (subst char_eq_nat) simp
  also have "\<dots> \<longleftrightarrow> (of_char c :: nat) = 120 \<or> (of_char c :: nat) = 88"
    unfolding of_char_lower_byte by auto
  also have "\<dots> \<longleftrightarrow> c = CHR ''x'' \<or> c = CHR ''X''"
    using char_eq_nat [of c "CHR ''x''"] char_eq_nat [of c "CHR ''X''"] by simp
  finally show ?thesis .
qed

lemma lower_byte_1: "lower_byte c = CHR ''1'' \<longleftrightarrow> c = CHR ''1''"
proof -
  have "lower_byte c = CHR ''1'' \<longleftrightarrow> (of_char (lower_byte c) :: nat) = 49"
    by (subst char_eq_nat) simp
  also have "\<dots> \<longleftrightarrow> (of_char c :: nat) = 49"
    unfolding of_char_lower_byte by auto
  also have "\<dots> \<longleftrightarrow> c = CHR ''1''"
    using char_eq_nat [of c "CHR ''1''"] by simp
  finally show ?thesis .
qed

lemma ToLower_x11: "ToLower s = ''x11'' \<longleftrightarrow> s = ''x11'' \<or> s = ''X11''"
  unfolding ToLower_def
  by (auto simp: map_eq_Cons_conv lower_byte_x lower_byte_1)

lemmas TrimSpace_eval =
  TrimSpace_def leading_space_def trailing_space_def White_Space_def HasPrefix_def HasSuffix_def

lemma TrimSpace_window_id: "TrimSpace ''62914565\<newline>'' = ''62914565''"
  by (simp add: TrimSpace_eval)

lemma TrimSpace_window_name: "TrimSpace ''main.go - VSCodium\<newline>'' = ''main.go - VSCodium''"
  by (simp add: TrimSpace_eval)

lemma TrimSpace_terminal:
  "TrimSpace ''4194311\<newline>'' = ''4194311''" "TrimSpace ''Terminal\<newline>'' = ''Terminal''"
  by (simp_all add: TrimSpace_eval)

lemma TrimSpace_nbsp_title: "TrimSpace nbsp_title = ''main.go - VSCodium''"
  by (simp add: nbsp_title_def TrimSpace_eval)

section \<open>Facts about the traces\<close>

lemma GetFocusedWindow_no_injection:
  "filter (\<lambda>e. is_clipboard_call e \<or> is_key_synthesis e) (snd (GetFocusedWindow h)) = []"
  by (simp add: GetFocusedWindow_def split: sum.splits)

lemma log_no_injection:
  "filter (\<lambda>e. is_clipboard_call e \<or> is_key_synthesis e) (Debug h m) = []"
  "filter (\<lambda>e. is_clipboard_call e \<or> is_key_synthesis e) (Debugf h f a) = []"
  "filter (\<lambda>e. is_clipboard_call e \<or> is_key_synthesis e) (Error_log h m err) = []"
  by (simp_all add: Debug_def Debugf_def Error_log_def writeLog_def)


lemma CopyToClipboard_trace_no_key:
  "e \<in> set (snd (CopyToClipboard h text)) \<Longrightarrow> \<not> is_key_synthesis e"
  by (auto simp: CopyToClipboard_def xclip_cmd_def Command_def split: sum.splits if_splits)

lemma key_cmds: "Path paste_cmd = ''xdotool''" "Path enter_cmd = ''xdotool''"
  by (simp_all add: paste_cmd_def enter_cmd_def Command_def)

lemma isX11_iff:
  "isX11 h \<longleftrightarrow>
     environ h ''XDG_SESSION_TYPE'' = Some ''x11'' \<or> environ h ''XDG_SESSION_TYPE'' = Some ''X11''"
  by (auto simp: isX11_def Getenv_def ToLower_x11 split: option.splits)

section \<open>The model on the example hosts\<close>

lemma GetFocusedWindow_terminal:
  "GetFocusedWindow terminal_host =
     (Inr \<lparr>Title = ''Terminal''\<rparr>,
      [Ev_Output ''xdotool'' [''getactivewindow''],
       Ev_Output ''xdotool'' [''getwindowname'', ''4194311'']])"
  by (simp add: GetFocusedWindow_def terminal_host_def editor_host_def TrimSpace_terminal)

lemma GetFocusedWindow_editor:
  "GetFocusedWindow editor_host =
     (Inr \<lparr>Title = ''main.go - VSCodium''\<rparr>,
      [Ev_Output ''xdotool'' [''getactivewindow''],
       Ev_Output ''xdotool'' [''getwindowname'', ''62914565'']])"
  by (simp add: GetFocusedWindow_def editor_host_def TrimSpace_window_id TrimSpace_window_name)

lemma CopyToClipboard_no_xclip:
  "CopyToClipboard no_xclip_host text =
     (Return (Some (Errorf ''xclip is not installed'')), [Ev_LookPath ''xclip''])"
  by (simp add: CopyToClipboard_def no_xclip_host_def editor_host_def)

lemma CopyToClipboard_editor:
  "CopyToClipboard editor_host text =
     (Return None,
      [Ev_LookPath ''xclip'', Ev_Pipe, Ev_Go_Write text (Some (length text, None)),
       Ev_Run (xclip_cmd text)])"
  by (simp add: CopyToClipboard_def editor_host_def)

lemma CopyToClipboard_x11:
  "CopyToClipboard x11_host text =
     (Return None,
      [Ev_LookPath ''xclip'', Ev_Pipe, Ev_Go_Write text (Some (length text, None)),
       Ev_Run (xclip_cmd text)])"
  by (simp add: CopyToClipboard_def x11_host_def editor_host_def)



section \<open>Window: the focused-window query\<close>

text \<open>
  Claim C4. \<open>GetFocusedWindow\<close> asks for the identifier of the active window and then for
  the title of the window with that identifier (trimmed). If the first query fails, the
  second is not made; if either fails, the result is the error of the failing query, as
  it was returned, and no window. If both succeed the result is the window whose title
  is the trimmed answer of the second query.
\<close>

theorem GetFocusedWindow_queries:
  "(Output h ''xdotool'' [''getactivewindow''] = Inl err \<longrightarrow>
      GetFocusedWindow h = (Inl err, [Ev_Output ''xdotool'' [''getactivewindow'']]))
   \<and> (Output h ''xdotool'' [''getactivewindow''] = Inr windowID
      \<and> Output h ''xdotool'' [''getwindowname'', TrimSpace windowID] = Inl err \<longrightarrow>
      GetFocusedWindow h =
        (Inl err,
         [Ev_Output ''xdotool'' [''getactivewindow''],
          Ev_Output ''xdotool'' [''getwindowname'', TrimSpace windowID]]))
   \<and> (Output h ''xdotool'' [''getactivewindow''] = Inr windowID
      \<and> Output h ''xdotool'' [''getwindowname'', TrimSpace windowID] = Inr windowName \<longrightarrow>
      GetFocusedWindow h =
        (Inr \<lparr>Title = TrimSpace windowName\<rparr>,
         [Ev_Output ''xdotool'' [''getactivewindow''],
          Ev_Output ''xdotool'' [''getwindowname'', TrimSpace windowID]]))"
  by (simp add: GetFocusedWindow_def)

theorem GetFocusedWindow_queries_witness:
  "Output no_window_host ''xdotool'' [''getactivewindow''] = Inl (ExecError ''exit status 1'')
   \<and> GetFocusedWindow no_window_host =
       (Inl (ExecError ''exit status 1''), [Ev_Output ''xdotool'' [''getactivewindow'']])
   \<and> Output no_title_host ''xdotool'' [''getactivewindow''] = Inr ''62914565\<newline>''
   \<and> Output no_title_host ''xdotool'' [''getwindowname'', ''62914565'']
       = Inl (ExecError ''exit status 1'')
   \<and> GetFocusedWindow no_title_host =
       (Inl (ExecError ''exit status 1''),
        [Ev_Output ''xdotool'' [''getactivewindow''],
         Ev_Output ''xdotool'' [''getwindowname'', ''62914565'']])
   \<and> Output editor_host ''xdotool'' [''getactivewindow''] = Inr ''62914565\<newline>''
   \<and> Output editor_host ''xdotool'' [''getwindowname'', ''62914565'']
       = Inr ''main.go - VSCodium\<newline>''
   \<and> GetFocusedWindow editor_host =
       (Inr \<lparr>Title = ''main.go - VSCodium''\<rparr>,
        [Ev_Output ''xdotool'' [''getactivewindow''],
         Ev_Output ''xdotool'' [''getwindowname'', ''62914565'']])
   \<and> Output nbsp_title_host ''xdotool'' [''getwindowname'', ''62914565''] = Inr nbsp_title
   \<and> length nbsp_title = 21
   \<and> GetFocusedWindow nbsp_title_host =
       (Inr \<lparr>Title = ''main.go - VSCodium''\<rparr>,
        [Ev_Output ''xdotool'' [''getactivewindow''],
         Ev_Output ''xdotool'' [''getwindowname'', ''62914565'']])"
proof -
  have n: "length nbsp_title = 21" by (simp add: nbsp_title_def)
  show ?thesis
    using GetFocusedWindow_queries [of no_window_host "ExecError ''exit status 1''"]
      GetFocusedWindow_queries [of no_title_host "ExecError ''exit status 1''"
        "''62914565\<newline>''"]
      GetFocusedWindow_queries [of editor_host _ "''62914565\<newline>''"
        "''main.go - VSCodium\<newline>''"]
      GetFocusedWindow_queries [of nbsp_title_host _ "''62914565\<newline>''" nbsp_title] n
    by (simp add: no_window_host_def no_title_host_def editor_host_def nbsp_title_host_def
        TrimSpace_window_id TrimSpace_window_name TrimSpace_nbsp_title)
qed

section \<open>Clipboard: copying\<close>

text \<open>
  Claim C2. \<open>CopyToClipboard\<close> is to put its argument on the clipboard, on macOS by giving
  it to \<^verbatim>\<open>pbcopy\<close> as input. On the macOS host the code runs \<^verbatim>\<open>pbcopy\<close> with no
  standard input set (the \<^verbatim>\<open>nil\<close> reader), creates no pipe and starts no writer: the
  text is handed to nothing, and the call does for \<open>open the file\<close> exactly what it does
  for the empty string.
\<close>

theorem CopyToClipboard_darwin_ignores_text:
  "CopyToClipboard darwin_host ''open the file'' =
     (Return None, [Ev_Run \<lparr>Path = ''pbcopy'', Args = [''pbcopy''], Stdin = None\<rparr>])
   \<and> CopyToClipboard darwin_host ''open the file'' = CopyToClipboard darwin_host []"
  by (simp add: CopyToClipboard_def darwin_host_def editor_host_def Command_def)




text \<open>
  Claim C9. On Linux the first thing \<open>CopyToClipboard\<close> does is look \<^verbatim>\<open>xclip\<close> up on the
  search path. If the lookup fails, it returns the error \<open>xclip is not installed\<close> at
  once: the lookup is the only call made, so no helper is run, no pipe is created and no
  payload is written.
\<close>

theorem CopyToClipboard_helper_check:
  "GOOS h = ''linux'' \<Longrightarrow>
     take 1 (snd (CopyToClipboard h text)) = [Ev_LookPath ''xclip'']
     \<and> (LookPath h ''xclip'' = Inl e \<longrightarrow>
          CopyToClipboard h text =
            (Return (Some (Errorf ''xclip is not installed'')), [Ev_LookPath ''xclip'']))"
  by (simp add: CopyToClipboard_def split: sum.splits)

theorem CopyToClipboard_helper_check_witness:
  "GOOS no_xclip_host = ''linux''
   \<and> LookPath no_xclip_host ''xclip'' = Inl (ExecError ''executable file not found in $PATH'')
   \<and> CopyToClipboard no_xclip_host ''open the file'' =
       (Return (Some (Errorf ''xclip is not installed'')), [Ev_LookPath ''xclip''])"
proof -
  have g: "GOOS no_xclip_host = ''linux''"
    by (simp add: no_xclip_host_def editor_host_def)
  have l: "LookPath no_xclip_host ''xclip'' = Inl (ExecError ''executable file not found in $PATH'')"
    by (simp add: no_xclip_host_def)
  show ?thesis
    using CopyToClipboard_helper_check [OF g, of "''open the file''"
        "ExecError ''executable file not found in $PATH''"] g l
    by simp
qed

text \<open>
  Claim C10. When \<^verbatim>\<open>runtime.GOOS\<close> is neither \<open>darwin\<close> nor \<open>linux\<close>, no case of the
  switch assigns the command, and running the \<^verbatim>\<open>nil\<close> command panics: \<open>CopyToClipboard\<close>
  returns no error value, for any text, and has made no call before the panic.
\<close>

theorem CopyToClipboard_other_os:
  "GOOS h \<noteq> ''darwin'' \<Longrightarrow> GOOS h \<noteq> ''linux'' \<Longrightarrow>
     CopyToClipboard h text = (Panic nil_dereference, [])"
  by (simp add: CopyToClipboard_def)

theorem CopyToClipboard_other_os_witness:
  "GOOS windows_host \<noteq> ''darwin'' \<and> GOOS windows_host \<noteq> ''linux''
   \<and> CopyToClipboard windows_host ''open the file'' = (Panic nil_dereference, [])"
proof -
  have d: "GOOS windows_host \<noteq> ''darwin''" by (simp add: windows_host_def)
  have l: "GOOS windows_host \<noteq> ''linux''" by (simp add: windows_host_def)
  show ?thesis
    using CopyToClipboard_other_os [OF d l, of "''open the file''"] d l by simp
qed

section \<open>Clipboard: pasting\<close>

text \<open>
  Claim C5. If \<open>CopyToClipboard\<close> returns an error, \<open>PasteWithReturn\<close> returns that same
  error and issues no call beyond those of \<open>CopyToClipboard\<close>; none of its calls
  synthesises a key, on either path.
\<close>

theorem PasteWithReturn_clipboard_failure:
  "fst (CopyToClipboard h text) = Return (Some err) \<Longrightarrow>
     PasteWithReturn h text = (Return (Some err), snd (CopyToClipboard h text))
     \<and> filter is_key_synthesis (snd (PasteWithReturn h text)) = []"
proof -
  assume a: "fst (CopyToClipboard h text) = Return (Some err)"
  have k: "filter is_key_synthesis (snd (CopyToClipboard h text)) = []"
    by (simp add: CopyToClipboard_def xclip_cmd_def Command_def split: sum.splits)
  from a have p: "PasteWithReturn h text = (Return (Some err), snd (CopyToClipboard h text))"
    by (cases "CopyToClipboard h text") (simp add: PasteWithReturn_def)
  with k show ?thesis by simp
qed

theorem PasteWithReturn_clipboard_failure_witness:
  "fst (CopyToClipboard no_xclip_host ''open the file'')
     = Return (Some (Errorf ''xclip is not installed''))
   \<and> PasteWithReturn no_xclip_host ''open the file''
     = (Return (Some (Errorf ''xclip is not installed'')), [Ev_LookPath ''xclip''])
   \<and> filter is_key_synthesis (snd (PasteWithReturn no_xclip_host ''open the file'')) = []"
  using PasteWithReturn_clipboard_failure [of no_xclip_host "''open the file''"
      "Errorf ''xclip is not installed''"]
  by (simp add: CopyToClipboard_no_xclip)

text \<open>
  Claim C6. \<open>isX11\<close> is a function of the value of \<open>XDG_SESSION_TYPE\<close> alone and issues no
  call. It holds exactly when the variable is set to \<open>x11\<close> or \<open>X11\<close>, the two strings that
  match \<open>x11\<close> without regard to case; it fails when the variable is unset, empty,
  \<open>wayland\<close> or \<open>unknown\<close>. Once the text is on the clipboard, \<open>PasteWithReturn\<close> taps the
  paste key through \<^verbatim>\<open>robotgo\<close> exactly for these two values and runs \<^verbatim>\<open>xdotool\<close> for
  the paste exactly for every other value.
\<close>

theorem isX11_classification:
  "(isX11 h \<longleftrightarrow>
      environ h ''XDG_SESSION_TYPE'' = Some ''x11''
      \<or> environ h ''XDG_SESSION_TYPE'' = Some ''X11'')
   \<and> isX11 (h\<lparr>environ := (environ h)(''XDG_SESSION_TYPE'' := Some ''X11'')\<rparr>)
   \<and> isX11 (h\<lparr>environ := (environ h)(''XDG_SESSION_TYPE'' := Some ''x11'')\<rparr>)
   \<and> \<not> isX11 (h\<lparr>environ := (environ h)(''XDG_SESSION_TYPE'' := None)\<rparr>)
   \<and> \<not> isX11 (h\<lparr>environ := (environ h)(''XDG_SESSION_TYPE'' := Some [])\<rparr>)
   \<and> \<not> isX11 (h\<lparr>environ := (environ h)(''XDG_SESSION_TYPE'' := Some ''wayland'')\<rparr>)
   \<and> \<not> isX11 (h\<lparr>environ := (environ h)(''XDG_SESSION_TYPE'' := Some ''unknown'')\<rparr>)
   \<and> (fst (CopyToClipboard h text) = Return None \<longrightarrow>
        (Ev_KeyTap ''v'' [''ctrl''] \<in> set (snd (PasteWithReturn h text)))
          = (environ h ''XDG_SESSION_TYPE'' = Some ''x11''
             \<or> environ h ''XDG_SESSION_TYPE'' = Some ''X11'')
        \<and> (Ev_Run paste_cmd \<in> set (snd (PasteWithReturn h text)))
          = (\<not> (environ h ''XDG_SESSION_TYPE'' = Some ''x11''
                 \<or> environ h ''XDG_SESSION_TYPE'' = Some ''X11'')))"
proof (intro conjI impI)
  show "isX11 h \<longleftrightarrow>
      environ h ''XDG_SESSION_TYPE'' = Some ''x11''
      \<or> environ h ''XDG_SESSION_TYPE'' = Some ''X11''"
    by (rule isX11_iff)
next
  assume a: "fst (CopyToClipboard h text) = Return None"
  obtain t where c: "CopyToClipboard h text = (Return None, t)"
    using a by (cases "CopyToClipboard h text") simp
  have k: "Ev_KeyTap ''v'' [''ctrl''] \<notin> set t"
    using CopyToClipboard_trace_no_key [of "Ev_KeyTap ''v'' [''ctrl'']" h "text"] c by auto
  have r: "Ev_Run paste_cmd \<notin> set t"
    using CopyToClipboard_trace_no_key [of "Ev_Run paste_cmd" h "text"] c
    by (auto simp: key_cmds)
  show "(Ev_KeyTap ''v'' [''ctrl''] \<in> set (snd (PasteWithReturn h text)))
          = (environ h ''XDG_SESSION_TYPE'' = Some ''x11''
             \<or> environ h ''XDG_SESSION_TYPE'' = Some ''X11'')"
    unfolding isX11_iff [symmetric] using c k
    by (simp add: PasteWithReturn_def split: option.splits)
  show "(Ev_Run paste_cmd \<in> set (snd (PasteWithReturn h text)))
          = (\<not> (environ h ''XDG_SESSION_TYPE'' = Some ''x11''
                 \<or> environ h ''XDG_SESSION_TYPE'' = Some ''X11''))"
    unfolding isX11_iff [symmetric] using c r
    by (simp add: PasteWithReturn_def split: option.splits)
qed (simp_all add: isX11_iff)

theorem isX11_classification_witness:
  "fst (CopyToClipboard x11_host ''open the file'') = Return None
   \<and> environ x11_host ''XDG_SESSION_TYPE'' = Some ''X11''
   \<and> isX11 x11_host
   \<and> Ev_KeyTap ''v'' [''ctrl''] \<in> set (snd (PasteWithReturn x11_host ''open the file''))
   \<and> Ev_Run paste_cmd \<notin> set (snd (PasteWithReturn x11_host ''open the file''))
   \<and> fst (CopyToClipboard editor_host ''open the file'') = Return None
   \<and> environ editor_host ''XDG_SESSION_TYPE'' = None
   \<and> \<not> isX11 editor_host
   \<and> Ev_KeyTap ''v'' [''ctrl''] \<notin> set (snd (PasteWithReturn editor_host ''open the file''))
   \<and> Ev_Run paste_cmd \<in> set (snd (PasteWithReturn editor_host ''open the file''))"
proof -
  have x: "environ x11_host ''XDG_SESSION_TYPE'' = Some ''X11''"
    by (simp add: x11_host_def)
  have e: "environ editor_host ''XDG_SESSION_TYPE'' = None"
    by (simp add: editor_host_def)
  have cx: "fst (CopyToClipboard x11_host ''open the file'') = Return None"
    by (simp add: CopyToClipboard_x11)
  have ce: "fst (CopyToClipboard editor_host ''open the file'') = Return None"
    by (simp add: CopyToClipboard_editor)
  show ?thesis
    using isX11_classification [of x11_host "''open the file''"]
      isX11_classification [of editor_host "''open the file''"] x e cx ce
    by simp
qed



section \<open>The action\<close>

text \<open>
  Claim C8. The test \<open>Execute\<close> applies to the title is \<^verbatim>\<open>strings.Contains\<close> with the
  fixed string \<open>VSC\<close>, a function of the title alone: false for the empty title, and true
  exactly when the title is some bytes, then \<open>VSC\<close> byte for byte, then some bytes. When
  the focused window's title fails the test, \<open>Execute\<close> returns \<^verbatim>\<open>nil\<close> after the two
  window queries and its log lines: none of its calls touches the clipboard or
  synthesises a key. When the title passes the test, \<open>Execute\<close> goes on to
  \<open>PasteWithReturn\<close> with the transcription: its calls are the same queries and log lines
  followed by all the calls of \<open>PasteWithReturn\<close>. So \<open>PasteWithReturn\<close> is reached exactly
  when \<open>VSC\<close> occurs in the title.
\<close>

theorem title_predicate:
  "\<not> Contains [] ''VSC''
   \<and> (Contains T ''VSC'' \<longleftrightarrow> (\<exists>pre post. T = pre @ ''VSC'' @ post))
   \<and> (GetFocusedWindow h = (Inr w, t) \<and> \<not> Contains (Title w) ''VSC'' \<longrightarrow>
        fst (Execute h transcription) = Return None
        \<and> filter (\<lambda>e. is_clipboard_call e \<or> is_key_synthesis e)
             (snd (Execute h transcription)) = [])
   \<and> (GetFocusedWindow h = (Inr w, t) \<and> \<not> (\<exists>pre post. Title w = pre @ ''VSC'' @ post) \<longrightarrow>
        Execute h transcription =
          (Return None,
           Debugf h ''Checking if VSCode should execute action for transcription: %s''
             [transcription]
           @ t @ Debugf h ''Checking window title: %s'' [Title w]
           @ Debug h ''VSCode is not open, skipping action''))
   \<and> (GetFocusedWindow h = (Inr w, t) \<and> (\<exists>pre post. Title w = pre @ ''VSC'' @ post) \<longrightarrow>
        snd (Execute h transcription) =
          Debugf h ''Checking if VSCode should execute action for transcription: %s''
            [transcription]
          @ t @ Debugf h ''Checking window title: %s'' [Title w]
          @ snd (PasteWithReturn h transcription)
        \<and> filter (\<lambda>e. is_clipboard_call e \<or> is_key_synthesis e)
             (snd (Execute h transcription)) =
           filter (\<lambda>e. is_clipboard_call e \<or> is_key_synthesis e)
             (snd (PasteWithReturn h transcription)))"
proof (intro conjI impI)
  show "\<not> Contains [] ''VSC''" by simp
  show "Contains T ''VSC'' \<longleftrightarrow> (\<exists>pre post. T = pre @ ''VSC'' @ post)"
    by (rule Contains_iff)
next
  assume a: "GetFocusedWindow h = (Inr w, t) \<and> \<not> Contains (Title w) ''VSC''"
  then show "fst (Execute h transcription) = Return None"
    by (simp add: Execute_def)
  from a have "filter (\<lambda>e. is_clipboard_call e \<or> is_key_synthesis e) t = []"
    using GetFocusedWindow_no_injection [of h] by simp
  with a show "filter (\<lambda>e. is_clipboard_call e \<or> is_key_synthesis e)
             (snd (Execute h transcription)) = []"
    by (simp add: Execute_def log_no_injection)
next
  assume "GetFocusedWindow h = (Inr w, t) \<and> \<not> (\<exists>pre post. Title w = pre @ ''VSC'' @ post)"
  then have "GetFocusedWindow h = (Inr w, t)" and "\<not> Contains (Title w) ''VSC''"
    using Contains_iff [of "Title w" "''VSC''"] by simp_all
  then show "Execute h transcription =
          (Return None,
           Debugf h ''Checking if VSCode should execute action for transcription: %s''
             [transcription]
           @ t @ Debugf h ''Checking window title: %s'' [Title w]
           @ Debug h ''VSCode is not open, skipping action'')"
    by (simp add: Execute_def)
next
  assume "GetFocusedWindow h = (Inr w, t) \<and> (\<exists>pre post. Title w = pre @ ''VSC'' @ post)"
  then have g: "GetFocusedWindow h = (Inr w, t)" and c: "Contains (Title w) ''VSC''"
    using Contains_iff [of "Title w" "''VSC''"] by simp_all
  obtain r p where pw: "PasteWithReturn h transcription = (r, p)"
    by (cases "PasteWithReturn h transcription")
  show s: "snd (Execute h transcription) =
          Debugf h ''Checking if VSCode should execute action for transcription: %s''
            [transcription]
          @ t @ Debugf h ''Checking window title: %s'' [Title w]
          @ snd (PasteWithReturn h transcription)"
    using g c pw by (cases r) (simp_all add: Execute_def)
  have "filter (\<lambda>e. is_clipboard_call e \<or> is_key_synthesis e) t = []"
    using GetFocusedWindow_no_injection [of h] g by simp
  then show "filter (\<lambda>e. is_clipboard_call e \<or> is_key_synthesis e)
             (snd (Execute h transcription)) =
           filter (\<lambda>e. is_clipboard_call e \<or> is_key_synthesis e)
             (snd (PasteWithReturn h transcription))"
    unfolding s by (simp add: log_no_injection)
qed

theorem title_predicate_witness:
  "GetFocusedWindow terminal_host =
     (Inr \<lparr>Title = ''Terminal''\<rparr>,
      [Ev_Output ''xdotool'' [''getactivewindow''],
       Ev_Output ''xdotool'' [''getwindowname'', ''4194311'']])
   \<and> \<not> Contains ''Terminal'' ''VSC''
   \<and> Execute terminal_host ''open the file'' =
       (Return None,
        [Ev_Output ''xdotool'' [''getactivewindow''],
         Ev_Output ''xdotool'' [''getwindowname'', ''4194311'']])
   \<and> filter (\<lambda>e. is_clipboard_call e \<or> is_key_synthesis e)
        (snd (Execute terminal_host ''open the file'')) = []
   \<and> GetFocusedWindow editor_host =
     (Inr \<lparr>Title = ''main.go - VSCodium''\<rparr>,
      [Ev_Output ''xdotool'' [''getactivewindow''],
       Ev_Output ''xdotool'' [''getwindowname'', ''62914565'']])
   \<and> Contains ''main.go - VSCodium'' ''VSC''
   \<and> snd (Execute editor_host ''open the file'') =
       [Ev_Output ''xdotool'' [''getactivewindow''],
        Ev_Output ''xdotool'' [''getwindowname'', ''62914565''],
        Ev_LookPath ''xclip'', Ev_Pipe, Ev_Go_Write ''open the file'' (Some (13, None)),
        Ev_Run (xclip_cmd ''open the file''),
        Ev_Run paste_cmd, Ev_Sleep 50000000, Ev_Run enter_cmd]"
proof -
  have c: "\<not> Contains ''Terminal'' ''VSC''"
    by (simp add: HasPrefix_def)
  have ci: "\<not> (\<exists>pre post. ''Terminal'' = pre @ ''VSC'' @ post)"
    using c Contains_iff [of "''Terminal''" "''VSC''"] by simp
  have d: "Contains ''main.go - VSCodium'' ''VSC''"
    by (simp add: HasPrefix_def)
  have di: "\<exists>pre post. ''main.go - VSCodium'' = pre @ ''VSC'' @ post"
    using d Contains_iff [of "''main.go - VSCodium''" "''VSC''"] by simp
  have lt: "currentLevel terminal_host = LevelInfo"
    by (simp add: terminal_host_def editor_host_def)
  have le: "currentLevel editor_host = LevelInfo"
    by (simp add: editor_host_def)
  have x: "\<not> isX11 editor_host" by (simp add: isX11_iff editor_host_def)
  have r: "Run editor_host cmd = None" for cmd by (simp add: editor_host_def)
  have p: "snd (PasteWithReturn editor_host ''open the file'') =
       [Ev_LookPath ''xclip'', Ev_Pipe, Ev_Go_Write ''open the file'' (Some (13, None)),
        Ev_Run (xclip_cmd ''open the file''),
        Ev_Run paste_cmd, Ev_Sleep 50000000, Ev_Run enter_cmd]"
    by (simp add: PasteWithReturn_def CopyToClipboard_editor x r Millisecond_def)
  have t: "Execute terminal_host ''open the file'' =
       (Return None,
        [Ev_Output ''xdotool'' [''getactivewindow''],
         Ev_Output ''xdotool'' [''getwindowname'', ''4194311'']])
     \<and> filter (\<lambda>e. is_clipboard_call e \<or> is_key_synthesis e)
        (snd (Execute terminal_host ''open the file'')) = []"
    using title_predicate [of "''Terminal''" terminal_host "\<lparr>Title = ''Terminal''\<rparr>"
        "[Ev_Output ''xdotool'' [''getactivewindow''],
          Ev_Output ''xdotool'' [''getwindowname'', ''4194311'']]" "''open the file''"]
      GetFocusedWindow_terminal c ci lt
    by (simp add: Debugf_def Debug_def del: Contains.simps)
  have e: "snd (Execute editor_host ''open the file'') =
       [Ev_Output ''xdotool'' [''getactivewindow''],
        Ev_Output ''xdotool'' [''getwindowname'', ''62914565''],
        Ev_LookPath ''xclip'', Ev_Pipe, Ev_Go_Write ''open the file'' (Some (13, None)),
        Ev_Run (xclip_cmd ''open the file''),
        Ev_Run paste_cmd, Ev_Sleep 50000000, Ev_Run enter_cmd]"
    using title_predicate [of "''Terminal''" editor_host "\<lparr>Title = ''main.go - VSCodium''\<rparr>"
        "[Ev_Output ''xdotool'' [''getactivewindow''],
          Ev_Output ''xdotool'' [''getwindowname'', ''62914565'']]" "''open the file''"]
      GetFocusedWindow_editor d di le p
    by (simp add: Debugf_def del: Contains.simps)
  show ?thesis
    using t e c d GetFocusedWindow_terminal GetFocusedWindow_editor by simp
qed

text \<open>
  Claim C1. A failure of the injection is to reach the caller of \<open>Execute\<close>. On the host
  without \<^verbatim>\<open>xclip\<close> the focused title \<open>main.go - VSCodium\<close> passes the test and
  \<open>PasteWithReturn\<close> returns the error \<open>xclip is not installed\<close>, having made the lookup
  only; \<open>Execute\<close> drops that result and returns \<^verbatim>\<open>nil\<close>, with no key synthesised.
\<close>

theorem Execute_drops_injection_error:
  "fst (GetFocusedWindow no_xclip_host) = Inr \<lparr>Title = ''main.go - VSCodium''\<rparr>
   \<and> Contains ''main.go - VSCodium'' ''VSC''
   \<and> PasteWithReturn no_xclip_host ''open the file'' =
       (Return (Some (Errorf ''xclip is not installed'')), [Ev_LookPath ''xclip''])
   \<and> Execute no_xclip_host ''open the file'' =
       (Return None,
        [Ev_Output ''xdotool'' [''getactivewindow''],
         Ev_Output ''xdotool'' [''getwindowname'', ''62914565''],
         Ev_LookPath ''xclip''])"
proof -
  have g: "GetFocusedWindow no_xclip_host =
     (Inr \<lparr>Title = ''main.go - VSCodium''\<rparr>,
      [Ev_Output ''xdotool'' [''getactivewindow''],
       Ev_Output ''xdotool'' [''getwindowname'', ''62914565'']])"
    by (simp add: GetFocusedWindow_def no_xclip_host_def editor_host_def
        TrimSpace_window_id TrimSpace_window_name)
  have c: "Contains ''main.go - VSCodium'' ''VSC''"
    by (simp add: HasPrefix_def)
  have p: "PasteWithReturn no_xclip_host ''open the file'' =
       (Return (Some (Errorf ''xclip is not installed'')), [Ev_LookPath ''xclip''])"
    by (simp add: PasteWithReturn_def CopyToClipboard_no_xclip)
  have l: "currentLevel no_xclip_host = LevelInfo"
    by (simp add: no_xclip_host_def editor_host_def)
  have e: "Execute no_xclip_host ''open the file'' =
       (Return None,
        [Ev_Output ''xdotool'' [''getactivewindow''],
         Ev_Output ''xdotool'' [''getwindowname'', ''62914565''],
         Ev_LookPath ''xclip''])"
    by (simp add: Execute_def g c p l Debugf_def Debug_def del: Contains.simps)
  show ?thesis using g c p e by simp
qed

end
